theory Spec2Isabelle
  imports Main "HOL-Library.AList"
begin

section \<open>Go values, types and errors\<close>

text \<open>
  The bridge in \<^verbatim>\<open>adapter/gorm/utils.go\<close> works on \<^verbatim>\<open>reflect.Type\<close> and
  \<^verbatim>\<open>reflect.Value\<close>. The types it meets are named types (the structs that stand for
  entities) and pointer types over them. A named type declares the five methods of
  \<^verbatim>\<open>contract.Model\<close> not at all, all of them on the value receiver, or at least one of
  them on the pointer receiver (\<^verbatim>\<open>func (m *User) SetID(id any)\<close>): the type declarations
  of the program are the table \<open>decl\<close> from type names to \<open>method_set\<close>.
\<close>

datatype method_set = NoModel | ValueRecv | PtrRecv

datatype go_type = Named string | PtrTo go_type

type_synonym decls = "string \<Rightarrow> method_set"

text \<open>
  Go's method sets: the value type \<open>T\<close> has the methods declared on the value receiver,
  \<open>*T\<close> has those of both receivers, and a pointer to a pointer has none.
\<close>

fun implementsModel :: "decls \<Rightarrow> go_type \<Rightarrow> bool" where
  "implementsModel decl (Named n) = (decl n = ValueRecv)"
| "implementsModel decl (PtrTo (Named n)) = (decl n \<noteq> NoModel)"
| "implementsModel decl (PtrTo (PtrTo t)) = False"

text \<open>
  A value is a value of a named type with its content \<open>'c\<close> (the fields), a nil pointer
  of a pointer type, or a pointer to a value. An interface value
  (\<^verbatim>\<open>contract.Model\<close>, \<^verbatim>\<open>interface{}\<close>) is \<open>None\<close> for the nil interface or the
  dynamic value it holds; an interface that holds a nil pointer is not \<open>None\<close>.
\<close>

datatype 'c go_value = Struct string 'c | NilPtr go_type | Ptr "'c go_value"

type_synonym 'c iface = "'c go_value option"

fun typeOf :: "'c go_value \<Rightarrow> go_type" where
  "typeOf (Struct n c) = Named n"
| "typeOf (NilPtr t) = PtrTo t"
| "typeOf (Ptr v) = PtrTo (typeOf v)"

text \<open>\<^verbatim>\<open>reflect.Kind\<close>, as far as the code asks for it: pointer or not.\<close>

fun isPtrType :: "go_type \<Rightarrow> bool" where
  "isPtrType (PtrTo t) = True"
| "isPtrType (Named n) = False"

text \<open>\<^verbatim>\<open>Type.Elem()\<close> of a pointer type.\<close>

fun typeElem :: "go_type \<Rightarrow> go_type" where
  "typeElem (PtrTo t) = t"
| "typeElem (Named n) = Named n"

text \<open>
  \<^verbatim>\<open>Value.Elem()\<close> of a pointer: the value it points to, or the zero \<^verbatim>\<open>reflect.Value\<close>
  (\<open>None\<close>) for a nil pointer.
\<close>

fun valueElem :: "'c go_value \<Rightarrow> 'c go_value option" where
  "valueElem (Ptr v) = Some v"
| "valueElem (NilPtr t) = None"
| "valueElem (Struct n c) = Some (Struct n c)"

text \<open>
  \<^verbatim>\<open>Type.AssignableTo\<close>: among named non-interface types and the pointer types over them,
  a value of type \<open>v\<close> is assignable to \<open>t\<close> exactly when the two types are identical.
\<close>

definition AssignableTo :: "go_type \<Rightarrow> go_type \<Rightarrow> bool" where
  "AssignableTo v t = (v = t)"

text \<open>
  Errors. \<open>ErrorString\<close> is \<^verbatim>\<open>errors.New(msg)\<close> (and \<^verbatim>\<open>fmt.Errorf\<close> of a constant
  text); the errors built with a format keep what the format prints:
  \<^item> \<open>ModelNilAt i\<close>: \<^verbatim>\<open>"model at index %d cannot be nil"\<close>;
  \<^item> \<open>NotAssignableAt i t\<close>: \<^verbatim>\<open>"model at index %d is not assignable to expected type %s"\<close>;
  \<^item> \<open>AssertFailedAt i t\<close>: \<^verbatim>\<open>"failed to assert item at index %d to contract.Model, got type %T"\<close>;
  \<^item> \<open>Wrapf p e\<close>: \<^verbatim>\<open>fmt.Errorf(p + ": %w", e)\<close>;
  \<^item> \<open>UnknownAdapter name\<close>: \<^verbatim>\<open>"unknown database adapter %q (is the adapter package imported?)"\<close>;
  \<^item> \<open>FactoryNotFound name\<close>: \<^verbatim>\<open>"query builder factory not found for adapter: %s"\<close>;
  \<^item> \<open>DbError op msg e\<close>: the \<^verbatim>\<open>db.Error\<close> struct with its operation, message and cause.
  A panic is not an error value: a call ends in \<open>Inl (Panic msg)\<close>, in
  \<open>Inl (Error e)\<close> for a returned error, or in \<open>Inr\<close> with its result.
\<close>

datatype go_error =
    ErrorString string
  | ModelNilAt nat
  | NotAssignableAt nat go_type
  | AssertFailedAt nat go_type
  | Wrapf string go_error
  | UnknownAdapter string
  | FactoryNotFound string
  | DbError string string go_error

datatype failure = Error go_error | Panic string

type_synonym 'a result = "failure + 'a"

section \<open>The type bridge\<close>

text \<open>
  \<^verbatim>\<open>getModelType\<close>: the type of a model, with one pointer level taken off.
\<close>

definition getModelType :: "'c go_value \<Rightarrow> go_type" where
  "getModelType model =
     (let modelType = typeOf model in
      if isPtrType modelType then typeElem modelType else modelType)"

text \<open>
  A homogeneous slice as \<^verbatim>\<open>reflect.MakeSlice(reflect.SliceOf(modelType), ...)\<close> makes it:
  its element type and its elements.
\<close>

record 'c go_slice =
  elemType :: go_type
  elems :: "'c go_value list"

text \<open>
  \<open>derefValue\<close> is \<^verbatim>\<open>modelValue := reflect.ValueOf(model)\<close> followed by
  \<^verbatim>\<open>if modelValue.Kind() == reflect.Ptr { modelValue = modelValue.Elem() }\<close>.
  Then the loop of \<^verbatim>\<open>convertModelsToSlice\<close>, from index \<open>i\<close> on. Iteration \<open>i\<close> writes
  \<^verbatim>\<open>slice.Index(i)\<close>, so the slice is built front to back; an early return gives the
  slice up. \<^verbatim>\<open>modelValue.Type()\<close> panics on the zero \<^verbatim>\<open>reflect.Value\<close> that
  \<^verbatim>\<open>Elem()\<close> of a nil pointer is.
\<close>

definition derefValue :: "'c go_value \<Rightarrow> 'c go_value option" where
  "derefValue model = (if isPtrType (typeOf model) then valueElem model else Some model)"

fun fillSlice :: "go_type \<Rightarrow> nat \<Rightarrow> 'c iface list \<Rightarrow> 'c go_value list \<Rightarrow> 'c go_value list result" where
  "fillSlice modelType i [] slice = Inr slice"
| "fillSlice modelType i (model # rest) slice =
     (case model of
        None \<Rightarrow> Inl (Error (ModelNilAt i))
      | Some v \<Rightarrow>
          (case derefValue v of
             None \<Rightarrow> Inl (Panic ''reflect: call of reflect.Value.Type on zero Value'')
           | Some modelValue \<Rightarrow>
               if \<not> AssignableTo (typeOf modelValue) modelType
               then Inl (Error (NotAssignableAt i modelType))
               else fillSlice modelType (Suc i) rest (slice @ [modelValue])))"

definition convertModelsToSlice :: "'c iface list \<Rightarrow> go_type \<Rightarrow> 'c go_slice result" where
  "convertModelsToSlice models modelType =
     (if length models = 0 then Inl (Error (ErrorString ''models slice cannot be empty''))
      else
        let modelType = (if isPtrType modelType then typeElem modelType else modelType) in
        case fillSlice modelType 0 models [] of
          Inl f \<Rightarrow> Inl f
        | Inr slice \<Rightarrow> Inr \<lparr>elemType = modelType, elems = slice\<rparr>)"

text \<open>
  \<^verbatim>\<open>convertSliceToModels\<close>: every item is asserted to \<^verbatim>\<open>contract.Model\<close>; the
  assertion holds when the item's dynamic type has the methods.
\<close>

fun assertModels :: "decls \<Rightarrow> nat \<Rightarrow> 'c go_value list \<Rightarrow> 'c iface list \<Rightarrow> 'c iface list result" where
  "assertModels decl i [] models = Inr models"
| "assertModels decl i (item # rest) models =
     (if implementsModel decl (typeOf item)
      then assertModels decl (Suc i) rest (models @ [Some item])
      else Inl (Error (AssertFailedAt i (typeOf item))))"

definition convertSliceToModels :: "decls \<Rightarrow> 'c go_slice \<Rightarrow> 'c iface list result" where
  "convertSliceToModels decl sliceValue = assertModels decl 0 (elems sliceValue) []"


text \<open>
  What the claims about the bridge speak of: an interface that holds a nil pointer, an
  element the loop rejects, the fields an entity carries (its own, or those of the
  struct it points to), and a non-nil entity whose type, one pointer level off, is the
  named type \<open>n\<close>.
\<close>

definition typedNil :: "'c iface \<Rightarrow> bool" where
  "typedNil m = (case m of Some (NilPtr t) \<Rightarrow> True | _ \<Rightarrow> False)"

definition offending :: "go_type \<Rightarrow> 'c iface \<Rightarrow> bool" where
  "offending modelType m =
     (case m of
        None \<Rightarrow> True
      | Some v \<Rightarrow> (case derefValue v of
                     None \<Rightarrow> False
                   | Some modelValue \<Rightarrow> \<not> AssignableTo (typeOf modelValue) modelType))"

fun entityContent :: "'c iface \<Rightarrow> 'c option" where
  "entityContent (Some (Struct n c)) = Some c"
| "entityContent (Some (Ptr (Struct n c))) = Some c"
| "entityContent m = None"

definition entityOfType :: "string \<Rightarrow> 'c iface \<Rightarrow> bool" where
  "entityOfType n m =
     (case m of None \<Rightarrow> False | Some v \<Rightarrow> \<not> typedNil m \<and> getModelType v = Named n)"

section \<open>Strings and the column grammar\<close>

text \<open>
  A Go string is a sequence of bytes, as \<open>string\<close> is. \<^verbatim>\<open>strings.TrimSpace\<close> and
  \<^verbatim>\<open>strings.ToUpper\<close> are modelled on ASCII text, where Go works byte by byte: the
  white space is tab, line feed, vertical tab, form feed, carriage return and space, and
  upper-casing takes \<^verbatim>\<open>'a' - 'A'\<close> off the bytes \<^verbatim>\<open>'a'\<close> to \<^verbatim>\<open>'z'\<close>. On a byte
  from 0x80 on Go decodes UTF-8 and consults the Unicode tables; such text is outside
  these two definitions, and the theorems that read their values ask for ASCII text.
\<close>

definition isASCII :: "string \<Rightarrow> bool" where
  "isASCII s = list_all (\<lambda>c. (of_char c :: nat) < 128) s"

definition asciiSpace :: "char \<Rightarrow> bool" where
  "asciiSpace c = ((of_char c :: nat) \<in> {9, 10, 11, 12, 13, 32})"

definition TrimSpace :: "string \<Rightarrow> string" where
  "TrimSpace s = rev (dropWhile asciiSpace (rev (dropWhile asciiSpace s)))"

definition toUpperByte :: "char \<Rightarrow> char" where
  "toUpperByte c =
     (let n = (of_char c :: nat) in if 97 \<le> n \<and> n \<le> 122 then char_of (n - 32) else c)"

definition ToUpper :: "string \<Rightarrow> string" where
  "ToUpper s = map toUpperByte s"

text \<open>\<^verbatim>\<open>strings.Join\<close>.\<close>

fun Join :: "string list \<Rightarrow> string \<Rightarrow> string" where
  "Join [] sep = []"
| "Join [x] sep = x"
| "Join (x # y # ys) sep = x @ sep @ Join (y # ys) sep"

text \<open>
  Regular expressions, as far as \<^verbatim>\<open>validColumnNameRegex\<close> needs them: a class of byte
  ranges, concatenation and iteration (\<open>Zero\<close>, \<open>One\<close> and \<open>Alt\<close> arise in derivatives).
  \<open>matches r s\<close> says that the whole of \<open>s\<close> is in the language of \<open>r\<close>, which is what
  \<^verbatim>\<open>MatchString\<close> decides for an expression between \<^verbatim>\<open>^\<close> and \<^verbatim>\<open>$\<close> (without the
  \<^verbatim>\<open>m\<close> flag, \<^verbatim>\<open>$\<close> is the end of the text). The classes hold ASCII bytes only, so a
  byte from 0x80 on matches none of them, as no code point beyond ASCII does in Go.
\<close>

datatype rexp =
    Zero
  | One
  | Class "(nat \<times> nat) list"
  | Alt rexp rexp
  | Seq rexp rexp
  | Star rexp

fun inClass :: "(nat \<times> nat) list \<Rightarrow> char \<Rightarrow> bool" where
  "inClass [] c = False"
| "inClass ((lo, hi) # rs) c = ((lo \<le> of_char c \<and> (of_char c :: nat) \<le> hi) \<or> inClass rs c)"

fun nullable :: "rexp \<Rightarrow> bool" where
  "nullable Zero = False"
| "nullable One = True"
| "nullable (Class rs) = False"
| "nullable (Alt r s) = (nullable r \<or> nullable s)"
| "nullable (Seq r s) = (nullable r \<and> nullable s)"
| "nullable (Star r) = True"

fun deriv :: "char \<Rightarrow> rexp \<Rightarrow> rexp" where
  "deriv c Zero = Zero"
| "deriv c One = Zero"
| "deriv c (Class rs) = (if inClass rs c then One else Zero)"
| "deriv c (Alt r s) = Alt (deriv c r) (deriv c s)"
| "deriv c (Seq r s) =
     (if nullable r then Alt (Seq (deriv c r) s) (deriv c s) else Seq (deriv c r) s)"
| "deriv c (Star r) = Seq (deriv c r) (Star r)"

fun matches :: "rexp \<Rightarrow> string \<Rightarrow> bool" where
  "matches r [] = nullable r"
| "matches r (c # cs) = matches (deriv c r) cs"

text \<open>
  \<^verbatim>\<open>^[a-zA-Z_][a-zA-Z0-9_]*(\.[a-zA-Z_][a-zA-Z0-9_]*)*$\<close>, with the bytes
  \<^verbatim>\<open>a-z\<close> = 97..122, \<^verbatim>\<open>A-Z\<close> = 65..90, \<^verbatim>\<open>0-9\<close> = 48..57, \<^verbatim>\<open>_\<close> = 95 and
  \<^verbatim>\<open>.\<close> = 46.
\<close>

definition identStart :: rexp where
  "identStart = Class [(97, 122), (65, 90), (95, 95)]"

definition identRest :: rexp where
  "identRest = Class [(97, 122), (65, 90), (48, 57), (95, 95)]"

definition validColumnNameRegex :: rexp where
  "validColumnNameRegex =
     Seq identStart (Seq (Star identRest)
       (Star (Seq (Class [(46, 46)]) (Seq identStart (Star identRest)))))"

definition validateColumnName :: "string \<Rightarrow> bool" where
  "validateColumnName column = matches validColumnNameRegex column"

definition validateOrderDirection :: "string \<Rightarrow> string \<Rightarrow> string" where
  "validateOrderDirection direction defaultDirection =
     (let direction = ToUpper (TrimSpace direction) in
      if direction \<noteq> ''ASC'' \<and> direction \<noteq> ''DESC'' then defaultDirection else direction)"

section \<open>The gorm handle\<close>

text \<open>
  \<^verbatim>\<open>*gorm.DB\<close> is the library's handle; the repository and the query builder only call
  its chain methods and keep the handle that a call returns. The model of a handle is the
  chain of calls made on it, oldest first, each with its arguments: \<open>tx @ [DB_Limit n]\<close>
  is \<^verbatim>\<open>tx.Limit(n)\<close>, \<open>DB_Session b\<close> is \<^verbatim>\<open>Session(&gorm.Session{NewDB: b})\<close> and
  \<open>DB_Model\<close> is \<^verbatim>\<open>Model(model)\<close> with the builder's own model. How gorm turns the chain
  into SQL is the library's business.
  Values of type \<^verbatim>\<open>any\<close> that are handed through are \<open>go_any\<close>, and \<^verbatim>\<open>int\<close> is
  \<open>int\<close>: the code compares it with 0 and hands it on, it does no arithmetic.
\<close>

datatype go_any = AnyString string | AnyInt int | AnySlice "go_any list"

datatype gorm_call =
    DB_Select "string list"
  | DB_Where go_any "go_any list"
  | DB_Or go_any "go_any list"
  | DB_Joins string
  | DB_Order string
  | DB_Group string
  | DB_Having go_any "go_any list"
  | DB_Limit int
  | DB_Offset int
  | DB_Preload string
  | DB_Scopes
  | DB_Unscoped
  | DB_Raw string "go_any list"
  | DB_Session bool
  | DB_Model

type_synonym gorm_DB = "gorm_call list"

text \<open>
  \<^verbatim>\<open>handleRelationshipPreload\<close>. \<open>Relationships\<close> is the method of the model, from a
  relation's name to the \<^verbatim>\<open>RelationshipType\<close> string of its descriptor; calling it on
  the nil interface panics. Every branch of the \<^verbatim>\<open>switch\<close> preloads the relation.
\<close>

fun preloadAll :: "(string \<rightharpoonup> string) \<Rightarrow> gorm_DB \<Rightarrow> string list \<Rightarrow> gorm_DB" where
  "preloadAll modelRelations tx [] = tx"
| "preloadAll modelRelations tx (rel # relations) =
     (case modelRelations rel of
        Some relationshipType \<Rightarrow>
          (if relationshipType = ''HasOne'' \<or> relationshipType = ''BelongsTo''
             then preloadAll modelRelations (tx @ [DB_Preload rel]) relations
           else if relationshipType = ''HasMany'' \<or> relationshipType = ''BelongsToMany''
             then preloadAll modelRelations (tx @ [DB_Preload rel]) relations
           else if relationshipType = ''Many2Many''
             then preloadAll modelRelations (tx @ [DB_Preload rel]) relations
           else preloadAll modelRelations (tx @ [DB_Preload rel]) relations)
      | None \<Rightarrow> preloadAll modelRelations (tx @ [DB_Preload rel]) relations)"

definition handleRelationshipPreload ::
  "('c go_value \<Rightarrow> string \<rightharpoonup> string) \<Rightarrow> gorm_DB \<Rightarrow> 'c iface \<Rightarrow> string list \<Rightarrow> gorm_DB result" where
  "handleRelationshipPreload Relationships tx model relations =
     (if length relations = 0 then Inr tx
      else case model of
        None \<Rightarrow> Inl (Panic ''invalid memory address or nil pointer dereference'')
      | Some m \<Rightarrow> Inr (preloadAll (Relationships m) tx relations))"

definition validateAndApplyLimit :: "gorm_DB \<Rightarrow> int \<Rightarrow> gorm_DB" where
  "validateAndApplyLimit tx limit = (if limit < 0 then tx else tx @ [DB_Limit limit])"

definition validateAndApplyOffset :: "gorm_DB \<Rightarrow> int \<Rightarrow> gorm_DB" where
  "validateAndApplyOffset tx offset = (if offset < 0 then tx else tx @ [DB_Offset offset])"

definition applyOrderBy :: "gorm_DB \<Rightarrow> string \<Rightarrow> string \<Rightarrow> gorm_DB" where
  "applyOrderBy tx column direction =
     (if \<not> validateColumnName column then tx
      else
        let normalizedDirection = validateOrderDirection direction ''ASC'' in
        tx @ [DB_Order (column @ '' '' @ normalizedDirection)])"

section \<open>Repository and query builder\<close>

text \<open>
  Both builders are structs behind a pointer: \<^verbatim>\<open>&repository{db: tx, mdl: r.mdl}\<close>
  allocates a new struct. The store of all structs allocated so far is a list, a pointer
  is an index into it, and an allocation appends. A method called through a pointer
  that points nowhere panics.
\<close>

record 'c repository =
  r_db :: gorm_DB
  r_mdl :: "'c iface"

record 'c gormQueryBuilder =
  q_db :: gorm_DB
  q_model :: "'c iface"

definition alloc :: "'a list \<Rightarrow> 'a \<Rightarrow> 'a list \<times> nat" where
  "alloc store obj = (store @ [obj], length store)"

definition receiver :: "'a list \<Rightarrow> nat \<Rightarrow> ('a \<Rightarrow> 'b result) \<Rightarrow> 'b result" where
  "receiver store p body =
     (if p < length store then body (store ! p)
      else Inl (Panic ''invalid memory address or nil pointer dereference''))"

subsection \<open>The repository's query building\<close>

definition repository_With ::
  "('c go_value \<Rightarrow> string \<rightharpoonup> string) \<Rightarrow> 'c repository list \<Rightarrow> nat \<Rightarrow> string list
     \<Rightarrow> ('c repository list \<times> nat) result" where
  "repository_With Relationships store r relations =
     receiver store r (\<lambda>this.
       case handleRelationshipPreload Relationships (r_db this) (r_mdl this) relations of
         Inl f \<Rightarrow> Inl f
       | Inr tx \<Rightarrow> Inr (alloc store \<lparr>r_db = tx, r_mdl = r_mdl this\<rparr>))"

definition repository_Where ::
  "'c repository list \<Rightarrow> nat \<Rightarrow> go_any \<Rightarrow> go_any list \<Rightarrow> ('c repository list \<times> nat) result" where
  "repository_Where store r query args =
     receiver store r (\<lambda>this.
       Inr (alloc store \<lparr>r_db = r_db this @ [DB_Where query args], r_mdl = r_mdl this\<rparr>))"

definition repository_Unscoped ::
  "'c repository list \<Rightarrow> nat \<Rightarrow> ('c repository list \<times> nat) result" where
  "repository_Unscoped store r =
     receiver store r (\<lambda>this.
       Inr (alloc store \<lparr>r_db = r_db this @ [DB_Unscoped], r_mdl = r_mdl this\<rparr>))"

definition repository_Limit ::
  "'c repository list \<Rightarrow> nat \<Rightarrow> int \<Rightarrow> ('c repository list \<times> nat) result" where
  "repository_Limit store r limit =
     receiver store r (\<lambda>this.
       let tx = validateAndApplyLimit (r_db this) limit in
       Inr (alloc store \<lparr>r_db = tx, r_mdl = r_mdl this\<rparr>))"

definition repository_Offset ::
  "'c repository list \<Rightarrow> nat \<Rightarrow> int \<Rightarrow> ('c repository list \<times> nat) result" where
  "repository_Offset store r offset =
     receiver store r (\<lambda>this.
       let tx = validateAndApplyOffset (r_db this) offset in
       Inr (alloc store \<lparr>r_db = tx, r_mdl = r_mdl this\<rparr>))"

definition repository_OrderBy ::
  "'c repository list \<Rightarrow> nat \<Rightarrow> string \<Rightarrow> string \<Rightarrow> ('c repository list \<times> nat) result" where
  "repository_OrderBy store r column direction =
     receiver store r (\<lambda>this.
       let tx = applyOrderBy (r_db this) column direction in
       Inr (alloc store \<lparr>r_db = tx, r_mdl = r_mdl this\<rparr>))"

text \<open>The six clause operations of the repository, as one call.\<close>

datatype repository_call =
    R_With "string list"
  | R_Where go_any "go_any list"
  | R_Unscoped
  | R_Limit int
  | R_Offset int
  | R_OrderBy string string

fun repository_do ::
  "('c go_value \<Rightarrow> string \<rightharpoonup> string) \<Rightarrow> 'c repository list \<Rightarrow> nat \<Rightarrow> repository_call
     \<Rightarrow> ('c repository list \<times> nat) result" where
  "repository_do R store r (R_With relations) = repository_With R store r relations"
| "repository_do R store r (R_Where query args) = repository_Where store r query args"
| "repository_do R store r R_Unscoped = repository_Unscoped store r"
| "repository_do R store r (R_Limit limit) = repository_Limit store r limit"
| "repository_do R store r (R_Offset offset) = repository_Offset store r offset"
| "repository_do R store r (R_OrderBy column direction) = repository_OrderBy store r column direction"

subsection \<open>The query builder\<close>

definition gormQueryBuilder_Select ::
  "'c gormQueryBuilder list \<Rightarrow> nat \<Rightarrow> string list \<Rightarrow> ('c gormQueryBuilder list \<times> nat) result" where
  "gormQueryBuilder_Select store q columns =
     receiver store q (\<lambda>this.
       Inr (alloc store \<lparr>q_db = q_db this @ [DB_Select columns], q_model = q_model this\<rparr>))"

definition gormQueryBuilder_Where ::
  "'c gormQueryBuilder list \<Rightarrow> nat \<Rightarrow> string \<Rightarrow> go_any list \<Rightarrow> ('c gormQueryBuilder list \<times> nat) result" where
  "gormQueryBuilder_Where store q condition args =
     receiver store q (\<lambda>this.
       Inr (alloc store \<lparr>q_db = q_db this @ [DB_Where (AnyString condition) args],
                          q_model = q_model this\<rparr>))"

definition gormQueryBuilder_WhereIn ::
  "'c gormQueryBuilder list \<Rightarrow> nat \<Rightarrow> string \<Rightarrow> go_any list \<Rightarrow> ('c gormQueryBuilder list \<times> nat) result" where
  "gormQueryBuilder_WhereIn store q column values =
     receiver store q (\<lambda>this.
       Inr (alloc store \<lparr>q_db = q_db this @ [DB_Where (AnyString (column @ '' IN ?'')) [AnySlice values]],
                          q_model = q_model this\<rparr>))"

definition gormQueryBuilder_WhereNotIn ::
  "'c gormQueryBuilder list \<Rightarrow> nat \<Rightarrow> string \<Rightarrow> go_any list \<Rightarrow> ('c gormQueryBuilder list \<times> nat) result" where
  "gormQueryBuilder_WhereNotIn store q column values =
     receiver store q (\<lambda>this.
       Inr (alloc store \<lparr>q_db = q_db this @ [DB_Where (AnyString (column @ '' NOT IN ?'')) [AnySlice values]],
                          q_model = q_model this\<rparr>))"

definition gormQueryBuilder_WhereNull ::
  "'c gormQueryBuilder list \<Rightarrow> nat \<Rightarrow> string \<Rightarrow> ('c gormQueryBuilder list \<times> nat) result" where
  "gormQueryBuilder_WhereNull store q column =
     receiver store q (\<lambda>this.
       Inr (alloc store \<lparr>q_db = q_db this @ [DB_Where (AnyString (column @ '' IS NULL'')) []],
                          q_model = q_model this\<rparr>))"

definition gormQueryBuilder_WhereNotNull ::
  "'c gormQueryBuilder list \<Rightarrow> nat \<Rightarrow> string \<Rightarrow> ('c gormQueryBuilder list \<times> nat) result" where
  "gormQueryBuilder_WhereNotNull store q column =
     receiver store q (\<lambda>this.
       Inr (alloc store \<lparr>q_db = q_db this @ [DB_Where (AnyString (column @ '' IS NOT NULL'')) []],
                          q_model = q_model this\<rparr>))"

definition gormQueryBuilder_WhereBetween ::
  "'c gormQueryBuilder list \<Rightarrow> nat \<Rightarrow> string \<Rightarrow> go_any \<Rightarrow> go_any \<Rightarrow> ('c gormQueryBuilder list \<times> nat) result" where
  "gormQueryBuilder_WhereBetween store q column start end =
     receiver store q (\<lambda>this.
       Inr (alloc store \<lparr>q_db = q_db this @ [DB_Where (AnyString (column @ '' BETWEEN ? AND ?'')) [start, end]],
                          q_model = q_model this\<rparr>))"

definition gormQueryBuilder_OrWhere ::
  "'c gormQueryBuilder list \<Rightarrow> nat \<Rightarrow> string \<Rightarrow> go_any list \<Rightarrow> ('c gormQueryBuilder list \<times> nat) result" where
  "gormQueryBuilder_OrWhere store q condition args =
     receiver store q (\<lambda>this.
       Inr (alloc store \<lparr>q_db = q_db this @ [DB_Or (AnyString condition) args],
                          q_model = q_model this\<rparr>))"

definition gormQueryBuilder_Join ::
  "'c gormQueryBuilder list \<Rightarrow> nat \<Rightarrow> string \<Rightarrow> string \<Rightarrow> ('c gormQueryBuilder list \<times> nat) result" where
  "gormQueryBuilder_Join store q table condition =
     receiver store q (\<lambda>this.
       Inr (alloc store \<lparr>q_db = q_db this @ [DB_Joins (''JOIN '' @ table @ '' ON '' @ condition)],
                          q_model = q_model this\<rparr>))"

definition gormQueryBuilder_LeftJoin ::
  "'c gormQueryBuilder list \<Rightarrow> nat \<Rightarrow> string \<Rightarrow> string \<Rightarrow> ('c gormQueryBuilder list \<times> nat) result" where
  "gormQueryBuilder_LeftJoin store q table condition =
     receiver store q (\<lambda>this.
       Inr (alloc store \<lparr>q_db = q_db this @ [DB_Joins (''LEFT JOIN '' @ table @ '' ON '' @ condition)],
                          q_model = q_model this\<rparr>))"

definition gormQueryBuilder_RightJoin ::
  "'c gormQueryBuilder list \<Rightarrow> nat \<Rightarrow> string \<Rightarrow> string \<Rightarrow> ('c gormQueryBuilder list \<times> nat) result" where
  "gormQueryBuilder_RightJoin store q table condition =
     receiver store q (\<lambda>this.
       Inr (alloc store \<lparr>q_db = q_db this @ [DB_Joins (''RIGHT JOIN '' @ table @ '' ON '' @ condition)],
                          q_model = q_model this\<rparr>))"

definition gormQueryBuilder_InnerJoin ::
  "'c gormQueryBuilder list \<Rightarrow> nat \<Rightarrow> string \<Rightarrow> string \<Rightarrow> ('c gormQueryBuilder list \<times> nat) result" where
  "gormQueryBuilder_InnerJoin store q table condition =
     receiver store q (\<lambda>this.
       Inr (alloc store \<lparr>q_db = q_db this @ [DB_Joins (''INNER JOIN '' @ table @ '' ON '' @ condition)],
                          q_model = q_model this\<rparr>))"

definition gormQueryBuilder_OrderBy ::
  "'c gormQueryBuilder list \<Rightarrow> nat \<Rightarrow> string \<Rightarrow> string \<Rightarrow> ('c gormQueryBuilder list \<times> nat) result" where
  "gormQueryBuilder_OrderBy store q column direction =
     receiver store q (\<lambda>this.
       let direction = ToUpper (TrimSpace direction);
           direction = (if direction \<noteq> ''ASC'' \<and> direction \<noteq> ''DESC'' then ''ASC'' else direction)
       in Inr (alloc store \<lparr>q_db = q_db this @ [DB_Order (column @ '' '' @ direction)],
                             q_model = q_model this\<rparr>))"

definition gormQueryBuilder_GroupBy ::
  "'c gormQueryBuilder list \<Rightarrow> nat \<Rightarrow> string list \<Rightarrow> ('c gormQueryBuilder list \<times> nat) result" where
  "gormQueryBuilder_GroupBy store q columns =
     receiver store q (\<lambda>this.
       Inr (alloc store \<lparr>q_db = q_db this @ [DB_Group (Join columns '', '')],
                          q_model = q_model this\<rparr>))"

definition gormQueryBuilder_Having ::
  "'c gormQueryBuilder list \<Rightarrow> nat \<Rightarrow> string \<Rightarrow> go_any list \<Rightarrow> ('c gormQueryBuilder list \<times> nat) result" where
  "gormQueryBuilder_Having store q condition args =
     receiver store q (\<lambda>this.
       Inr (alloc store \<lparr>q_db = q_db this @ [DB_Having (AnyString condition) args],
                          q_model = q_model this\<rparr>))"

text \<open>\<^verbatim>\<open>Limit\<close> and \<^verbatim>\<open>Offset\<close> return the receiver itself on a negative argument.\<close>

definition gormQueryBuilder_Limit ::
  "'c gormQueryBuilder list \<Rightarrow> nat \<Rightarrow> int \<Rightarrow> ('c gormQueryBuilder list \<times> nat) result" where
  "gormQueryBuilder_Limit store q limit =
     (if limit < 0 then Inr (store, q)
      else receiver store q (\<lambda>this.
        Inr (alloc store \<lparr>q_db = q_db this @ [DB_Limit limit], q_model = q_model this\<rparr>)))"

definition gormQueryBuilder_Offset ::
  "'c gormQueryBuilder list \<Rightarrow> nat \<Rightarrow> int \<Rightarrow> ('c gormQueryBuilder list \<times> nat) result" where
  "gormQueryBuilder_Offset store q offset =
     (if offset < 0 then Inr (store, q)
      else receiver store q (\<lambda>this.
        Inr (alloc store \<lparr>q_db = q_db this @ [DB_Offset offset], q_model = q_model this\<rparr>)))"

definition gormQueryBuilder_With ::
  "'c gormQueryBuilder list \<Rightarrow> nat \<Rightarrow> string list \<Rightarrow> ('c gormQueryBuilder list \<times> nat) result" where
  "gormQueryBuilder_With store q relations =
     receiver store q (\<lambda>this.
       let db = foldl (\<lambda>db relation. db @ [DB_Preload relation]) (q_db this) relations in
       Inr (alloc store \<lparr>q_db = db, q_model = q_model this\<rparr>))"

definition gormQueryBuilder_WithCount ::
  "'c gormQueryBuilder list \<Rightarrow> nat \<Rightarrow> string list \<Rightarrow> ('c gormQueryBuilder list \<times> nat) result" where
  "gormQueryBuilder_WithCount store q relations = Inr (store, q)"

definition gormQueryBuilder_Scoped ::
  "'c gormQueryBuilder list \<Rightarrow> nat \<Rightarrow> ('c gormQueryBuilder list \<times> nat) result" where
  "gormQueryBuilder_Scoped store q =
     receiver store q (\<lambda>this.
       Inr (alloc store \<lparr>q_db = q_db this @ [DB_Scopes], q_model = q_model this\<rparr>))"

definition gormQueryBuilder_Unscoped ::
  "'c gormQueryBuilder list \<Rightarrow> nat \<Rightarrow> ('c gormQueryBuilder list \<times> nat) result" where
  "gormQueryBuilder_Unscoped store q =
     receiver store q (\<lambda>this.
       Inr (alloc store \<lparr>q_db = q_db this @ [DB_Unscoped], q_model = q_model this\<rparr>))"

definition gormQueryBuilder_Raw ::
  "'c gormQueryBuilder list \<Rightarrow> nat \<Rightarrow> string \<Rightarrow> go_any list \<Rightarrow> ('c gormQueryBuilder list \<times> nat) result" where
  "gormQueryBuilder_Raw store q sql args =
     receiver store q (\<lambda>this.
       Inr (alloc store \<lparr>q_db = q_db this @ [DB_Raw sql args], q_model = q_model this\<rparr>))"

definition gormQueryBuilder_Clone ::
  "'c gormQueryBuilder list \<Rightarrow> nat \<Rightarrow> ('c gormQueryBuilder list \<times> nat) result" where
  "gormQueryBuilder_Clone store q =
     receiver store q (\<lambda>this.
       Inr (alloc store \<lparr>q_db = q_db this @ [DB_Session False], q_model = q_model this\<rparr>))"

text \<open>
  \<^verbatim>\<open>newGormQueryBuilder(model, connection)\<close>, called with a \<^verbatim>\<open>*gorm.DB\<close> (its type
  assertion holds), and \<^verbatim>\<open>Reset\<close>, which calls it.
\<close>

definition newGormQueryBuilder ::
  "'c gormQueryBuilder list \<Rightarrow> 'c iface \<Rightarrow> gorm_DB \<Rightarrow> 'c gormQueryBuilder list \<times> nat" where
  "newGormQueryBuilder store model gormDB = alloc store \<lparr>q_db = gormDB @ [DB_Model], q_model = model\<rparr>"

definition gormQueryBuilder_Reset ::
  "'c gormQueryBuilder list \<Rightarrow> nat \<Rightarrow> ('c gormQueryBuilder list \<times> nat) result" where
  "gormQueryBuilder_Reset store q =
     receiver store q (\<lambda>this.
       Inr (newGormQueryBuilder store (q_model this) (q_db this @ [DB_Session True])))"

text \<open>Every method of the query builder that returns a query builder, as one call.\<close>

datatype builder_call =
    Q_Select "string list"
  | Q_Where string "go_any list"
  | Q_WhereIn string "go_any list"
  | Q_WhereNotIn string "go_any list"
  | Q_WhereNull string
  | Q_WhereNotNull string
  | Q_WhereBetween string go_any go_any
  | Q_OrWhere string "go_any list"
  | Q_Join string string
  | Q_LeftJoin string string
  | Q_RightJoin string string
  | Q_InnerJoin string string
  | Q_OrderBy string string
  | Q_GroupBy "string list"
  | Q_Having string "go_any list"
  | Q_Limit int
  | Q_Offset int
  | Q_With "string list"
  | Q_WithCount "string list"
  | Q_Scoped
  | Q_Unscoped
  | Q_Raw string "go_any list"
  | Q_Clone
  | Q_Reset

fun gormQueryBuilder_do ::
  "'c gormQueryBuilder list \<Rightarrow> nat \<Rightarrow> builder_call \<Rightarrow> ('c gormQueryBuilder list \<times> nat) result" where
  "gormQueryBuilder_do store q (Q_Select columns) = gormQueryBuilder_Select store q columns"
| "gormQueryBuilder_do store q (Q_Where condition args) = gormQueryBuilder_Where store q condition args"
| "gormQueryBuilder_do store q (Q_WhereIn column values) = gormQueryBuilder_WhereIn store q column values"
| "gormQueryBuilder_do store q (Q_WhereNotIn column values) = gormQueryBuilder_WhereNotIn store q column values"
| "gormQueryBuilder_do store q (Q_WhereNull column) = gormQueryBuilder_WhereNull store q column"
| "gormQueryBuilder_do store q (Q_WhereNotNull column) = gormQueryBuilder_WhereNotNull store q column"
| "gormQueryBuilder_do store q (Q_WhereBetween column start end) = gormQueryBuilder_WhereBetween store q column start end"
| "gormQueryBuilder_do store q (Q_OrWhere condition args) = gormQueryBuilder_OrWhere store q condition args"
| "gormQueryBuilder_do store q (Q_Join table condition) = gormQueryBuilder_Join store q table condition"
| "gormQueryBuilder_do store q (Q_LeftJoin table condition) = gormQueryBuilder_LeftJoin store q table condition"
| "gormQueryBuilder_do store q (Q_RightJoin table condition) = gormQueryBuilder_RightJoin store q table condition"
| "gormQueryBuilder_do store q (Q_InnerJoin table condition) = gormQueryBuilder_InnerJoin store q table condition"
| "gormQueryBuilder_do store q (Q_OrderBy column direction) = gormQueryBuilder_OrderBy store q column direction"
| "gormQueryBuilder_do store q (Q_GroupBy columns) = gormQueryBuilder_GroupBy store q columns"
| "gormQueryBuilder_do store q (Q_Having condition args) = gormQueryBuilder_Having store q condition args"
| "gormQueryBuilder_do store q (Q_Limit limit) = gormQueryBuilder_Limit store q limit"
| "gormQueryBuilder_do store q (Q_Offset offset) = gormQueryBuilder_Offset store q offset"
| "gormQueryBuilder_do store q (Q_With relations) = gormQueryBuilder_With store q relations"
| "gormQueryBuilder_do store q (Q_WithCount relations) = gormQueryBuilder_WithCount store q relations"
| "gormQueryBuilder_do store q Q_Scoped = gormQueryBuilder_Scoped store q"
| "gormQueryBuilder_do store q Q_Unscoped = gormQueryBuilder_Unscoped store q"
| "gormQueryBuilder_do store q (Q_Raw sql args) = gormQueryBuilder_Raw store q sql args"
| "gormQueryBuilder_do store q Q_Clone = gormQueryBuilder_Clone store q"
| "gormQueryBuilder_do store q Q_Reset = gormQueryBuilder_Reset store q"

text \<open>
  The calls that return the receiver itself instead of a new struct.
\<close>

fun returnsReceiver :: "builder_call \<Rightarrow> bool" where
  "returnsReceiver (Q_Limit limit) = (limit < 0)"
| "returnsReceiver (Q_Offset offset) = (offset < 0)"
| "returnsReceiver (Q_WithCount relations) = True"
| "returnsReceiver call = False"

section \<open>Properties of the type bridge\<close>

lemma derefValue_Some: "\<not> typedNil (Some v) \<Longrightarrow> \<exists>modelValue. derefValue v = Some modelValue"
  by (cases v) (auto simp: derefValue_def typedNil_def)

lemma fillSlice_first_offending:
  "\<forall>m\<in>set models. \<not> typedNil m \<Longrightarrow>
   fillSlice mt i models acc =
     (let k = length (takeWhile (\<lambda>m. \<not> offending mt m) models) in
      if k = length models then Inr (acc @ map (\<lambda>m. the (derefValue (the m))) models)
      else (case models ! k of
              None \<Rightarrow> Inl (Error (ModelNilAt (i + k)))
            | Some v \<Rightarrow> Inl (Error (NotAssignableAt (i + k) mt))))"
proof (induction models arbitrary: i acc)
  case Nil
  then show ?case by simp
next
  case (Cons m models)
  show ?case
  proof (cases m)
    case None
    then show ?thesis by (simp add: offending_def)
  next
    case (Some v)
    with Cons.prems obtain mv where mv: "derefValue v = Some mv"
      using derefValue_Some by fastforce
    show ?thesis
    proof (cases "AssignableTo (typeOf mv) mt")
      case True
      then have ok: "\<not> offending mt m" by (simp add: offending_def Some mv)
      have "\<forall>m\<in>set models. \<not> typedNil m" using Cons.prems by simp
      from Cons.IH[OF this, of "Suc i" "acc @ [mv]"] ok show ?thesis
        by (simp add: Some mv True Let_def split: option.splits)
    next
      case False
      then show ?thesis by (simp add: offending_def Some mv)
    qed
  qed
qed

text \<open>
  On a list that holds no nil pointer the conversion is decided by the first offending
  element: it succeeds when there is none, and otherwise returns the error of the first
  offending index, \<open>ModelNilAt\<close> for a nil interface and \<open>NotAssignableAt\<close> for an element
  of another type. The target type is taken with one pointer level off.
\<close>

lemma convertModelsToSlice_without_nil_pointers:
  assumes "\<forall>m\<in>set models. \<not> typedNil m"
  shows "convertModelsToSlice models modelType =
     (let mt = (if isPtrType modelType then typeElem modelType else modelType);
          k = length (takeWhile (\<lambda>m. \<not> offending mt m) models) in
      if models = [] then Inl (Error (ErrorString ''models slice cannot be empty''))
      else if k = length models
        then Inr \<lparr>elemType = mt, elems = map (\<lambda>m. the (derefValue (the m))) models\<rparr>
      else (case models ! k of
              None \<Rightarrow> Inl (Error (ModelNilAt k))
            | Some v \<Rightarrow> Inl (Error (NotAssignableAt k mt))))"
  unfolding convertModelsToSlice_def Let_def
  by (simp add: fillSlice_first_offending[OF assms] Let_def split: option.splits)

text \<open>
  C1. The claim: the conversion fails exactly when the list is empty, holds a nil element
  or holds an element of a type that is not assignable, and the error names the first
  offending index. The list \<^verbatim>\<open>[]contract.Model{(*TestModel)(nil)}\<close> holds a nil
  element that \<^verbatim>\<open>model == nil\<close> does not see: the conversion returns no error that
  names index 0, it panics inside \<^verbatim>\<open>reflect\<close>. (\<^verbatim>\<open>connection.NewRepository\<close> does
  test \<^verbatim>\<open>reflect.ValueOf(model).IsNil()\<close>.)
\<close>

theorem convertModelsToSlice_typed_nil_panics:
  "convertModelsToSlice [Some (NilPtr (Named ''TestModel'')) :: nat iface] (Named ''TestModel'')
     = Inl (Panic ''reflect: call of reflect.Value.Type on zero Value'')"
  by (simp add: convertModelsToSlice_def derefValue_def)

lemma assertModels_all:
  "\<forall>item\<in>set items. implementsModel decl (typeOf item) \<Longrightarrow>
   assertModels decl i items acc = Inr (acc @ map Some items)"
  by (induction items arbitrary: i acc) auto


lemma derefValue_of_type:
  assumes "getModelType v = Named n" and "\<not> typedNil (Some v)"
  shows "\<exists>c. derefValue v = Some (Struct n c) \<and> entityContent (Some v) = Some c"
proof (cases v)
  case (Struct n' c)
  with assms show ?thesis by (simp add: getModelType_def derefValue_def)
next
  case (NilPtr t)
  with assms show ?thesis by (simp add: typedNil_def)
next
  case (Ptr w)
  with assms have "typeOf w = Named n" by (simp add: getModelType_def)
  then obtain c where "w = Struct n c" by (cases w) auto
  with Ptr show ?thesis by (simp add: derefValue_def)
qed

lemma entityOfType_deref:
  assumes "entityOfType n m"
  shows "\<exists>c. derefValue (the m) = Some (Struct n c) \<and> entityContent m = Some c"
proof -
  from assms obtain v where v: "m = Some v" "\<not> typedNil (Some v)" "getModelType v = Named n"
    by (cases m) (simp_all add: entityOfType_def)
  from derefValue_of_type[OF v(3) v(2)] v(1) show ?thesis by simp
qed

lemma entityOfType_not_offending: "entityOfType n m \<Longrightarrow> \<not> offending (Named n) m"
proof -
  assume a: "entityOfType n m"
  then obtain v where v: "m = Some v" by (cases m) (simp_all add: entityOfType_def)
  from entityOfType_deref[OF a] obtain c where "derefValue v = Some (Struct n c)"
    using v by auto
  then show ?thesis by (simp add: offending_def v AssignableTo_def)
qed

lemma entityOfType_not_typedNil: "entityOfType n m \<Longrightarrow> \<not> typedNil m"
  by (cases m) (simp_all add: entityOfType_def)

lemma entityOfType_items:
  "\<forall>m\<in>set models. entityOfType n m \<Longrightarrow>
   map Some (map (\<lambda>m. the (derefValue (the m))) models) = map (\<lambda>m. derefValue (the m)) models"
proof (induction models)
  case Nil
  then show ?case by simp
next
  case (Cons m models)
  from Cons.prems have "entityOfType n m" by simp
  from entityOfType_deref[OF this] obtain c where "derefValue (the m) = Some (Struct n c)" by blast
  with Cons show ?case by simp
qed

lemma entityOfType_content:
  "\<forall>m\<in>set models. entityOfType n m \<Longrightarrow>
   map entityContent (map (\<lambda>m. derefValue (the m)) models) = map entityContent models"
proof (induction models)
  case Nil
  then show ?case by simp
next
  case (Cons m models)
  from Cons.prems have "entityOfType n m" by simp
  from entityOfType_deref[OF this] obtain c
    where "derefValue (the m) = Some (Struct n c)" "entityContent m = Some c" by blast
  with Cons show ?case by simp
qed

lemma entityOfType_implements:
  assumes "\<forall>m\<in>set models. entityOfType n m" and "decl n = ValueRecv"
  shows "\<forall>item\<in>set (map (\<lambda>m. the (derefValue (the m))) models). implementsModel decl (typeOf item)"
proof
  fix item assume "item \<in> set (map (\<lambda>m. the (derefValue (the m))) models)"
  then obtain m where m: "m \<in> set models" "item = the (derefValue (the m))" by auto
  with assms(1) have "entityOfType n m" by simp
  from entityOfType_deref[OF this] m(2) assms(2)
  show "implementsModel decl (typeOf item)" by auto
qed


text \<open>
  C2 (as amended). The claim promises the round trip for every non-empty collection of
  non-nil entities of one type \<open>T\<close>. \<^verbatim>\<open>convertModelsToSlice\<close> stores the structs
  themselves (a \<^verbatim>\<open>[]T\<close>), and \<^verbatim>\<open>convertSliceToModels\<close> asserts each item to
  \<^verbatim>\<open>contract.Model\<close>: the way back succeeds when the value type \<open>T\<close> itself has the
  methods (all declared on the value receiver). Then it returns as many entities as it
  was given, each the struct of the entity at its index, with the same fields.
\<close>

theorem roundtrip_value_receiver:
  assumes "models \<noteq> []"
    and "\<forall>m\<in>set models. entityOfType n m"
    and "decl n = ValueRecv"
  shows "\<exists>slice back.
           convertModelsToSlice models (Named n) = Inr slice
         \<and> convertSliceToModels decl slice = Inr back
         \<and> back = map (\<lambda>m. derefValue (the m)) models
         \<and> length back = length models
         \<and> map entityContent back = map entityContent models"
proof -
  let ?items = "map (\<lambda>m. the (derefValue (the m))) models"
  have no_nil: "\<forall>m\<in>set models. \<not> typedNil m"
    using assms(2) entityOfType_not_typedNil by blast
  have "\<forall>m\<in>set models. \<not> offending (Named n) m"
    using assms(2) entityOfType_not_offending by blast
  then have all: "takeWhile (\<lambda>m. \<not> offending (Named n) m) models = models"
    by (simp add: takeWhile_eq_all_conv)
  have fwd: "convertModelsToSlice models (Named n) = Inr \<lparr>elemType = Named n, elems = ?items\<rparr>"
    using assms(1) by (simp add: convertModelsToSlice_without_nil_pointers[OF no_nil] all)
  have impl: "\<forall>item\<in>set ?items. implementsModel decl (typeOf item)"
    using assms(2,3) by (rule entityOfType_implements)
  have "assertModels decl 0 ?items [] = Inr ([] @ map Some ?items)"
    using impl by (rule assertModels_all)
  then have bwd: "convertSliceToModels decl \<lparr>elemType = Named n, elems = ?items\<rparr>
                = Inr (map (\<lambda>m. derefValue (the m)) models)"
    unfolding convertSliceToModels_def using entityOfType_items[OF assms(2)] by simp
  show ?thesis
    using fwd bwd entityOfType_content[OF assms(2)] by simp
qed

theorem roundtrip_value_receiver_witness:
  "(\<exists>slice back.
      convertModelsToSlice [Some (Ptr (Struct ''Tag'' (1::nat))), Some (Struct ''Tag'' 2)] (Named ''Tag'')
        = Inr slice
    \<and> convertSliceToModels (\<lambda>n. ValueRecv) slice = Inr back
    \<and> back = [Some (Struct ''Tag'' 1), Some (Struct ''Tag'' 2)]
    \<and> length back = 2
    \<and> map entityContent back = [Some 1, Some 2])"
  using roundtrip_value_receiver[of "[Some (Ptr (Struct ''Tag'' (1::nat))), Some (Struct ''Tag'' 2)]"
      "''Tag''" "\<lambda>n. ValueRecv"]
  by (simp add: entityOfType_def typedNil_def getModelType_def derefValue_def)

text \<open>
  C2, the claim as stated, fails for a type with a pointer receiver, such as
  \<^verbatim>\<open>User\<close> of the example domain and \<^verbatim>\<open>TestModel\<close> of the tests
  (\<^verbatim>\<open>func (t *TestModel) SetID(id any)\<close>): the slice holds \<^verbatim>\<open>User\<close> values, which
  are no \<^verbatim>\<open>contract.Model\<close>, and the way back fails at index 0.
\<close>

theorem roundtrip_pointer_receiver_counterexample:
  "convertModelsToSlice [Some (Ptr (Struct ''User'' (1::nat)))] (Named ''User'')
     = Inr \<lparr>elemType = Named ''User'', elems = [Struct ''User'' 1]\<rparr>
   \<and> convertSliceToModels (\<lambda>n. PtrRecv) \<lparr>elemType = Named ''User'', elems = [Struct ''User'' (1::nat)]\<rparr>
     = Inl (Error (AssertFailedAt 0 (Named ''User'')))"
  by (simp add: convertModelsToSlice_def convertSliceToModels_def derefValue_def AssignableTo_def)

end
